theory Spec2Isabelle
  imports Complex_Main
begin

section \<open>Command-line roulette: a shallow embedding of \<^verbatim>\<open>roulette.py\<close>\<close>

text \<open>
  The script keeps a balance, asks for a bet, spins a single-zero wheel and pays the bet.
  Its functions are translated one by one. Conventions of the embedding:
  \<^item> a Python \<^verbatim>\<open>float\<close> is a \<open>pyfloat\<close>: a real number, one of the two infinities, or
    NaN, with the comparisons and the arithmetic of floats on them. Finite values are
    exact reals: binary rounding error, overflow and the sign of zero are left out;
  \<^item> Python \<^verbatim>\<open>int\<close> is \<^typ>\<open>int\<close>; a \<^verbatim>\<open>str\<close> is the list of its code points, all below
    256;
  \<^item> an exception is the \<open>Inl\<close> branch of a sum;
  \<^item> the console and the random generator are an explicit \<open>world\<close>. Every function of
    the script takes the world and returns it with its result; a keyboard interrupt is
    not part of it.
\<close>

subsection \<open>Exceptions\<close>

text \<open>
  Both \<^verbatim>\<open>int(...)\<close> on a malformed literal and the last line of \<^verbatim>\<open>resolve_bet\<close> raise
  Python's \<^verbatim>\<open>ValueError\<close>; they differ in their message, so each has its own constructor,
  carrying the text the message quotes. \<^verbatim>\<open>input\<close> raises \<^verbatim>\<open>EOFError\<close> at the end of the
  input, and a dictionary lookup raises \<^verbatim>\<open>KeyError\<close> for a missing key.
\<close>

datatype error =
    ValueError_invalid_literal string
  | ValueError_unknown_bet_type string
  | KeyError int
  | EOFError

subsection \<open>Floats\<close>

datatype pyfloat = Fin real | PosInf | NegInf | NaN

text \<open>\<^verbatim>\<open>x < y\<close>, \<^verbatim>\<open>x > y\<close>, \<^verbatim>\<open>x == y\<close>, \<^verbatim>\<open>x <= y\<close> and \<^verbatim>\<open>x >= y\<close>: all false when NaN is involved.\<close>

fun float_lt :: "pyfloat \<Rightarrow> pyfloat \<Rightarrow> bool" where
  "float_lt (Fin a) (Fin b) = (a < b)"
| "float_lt (Fin a) PosInf = True"
| "float_lt NegInf (Fin b) = True"
| "float_lt NegInf PosInf = True"
| "float_lt x y = False"

definition float_gt :: "pyfloat \<Rightarrow> pyfloat \<Rightarrow> bool" where
  "float_gt x y = float_lt y x"

definition float_eq :: "pyfloat \<Rightarrow> pyfloat \<Rightarrow> bool" where
  "float_eq x y = (x \<noteq> NaN \<and> y \<noteq> NaN \<and> x = y)"

definition float_le :: "pyfloat \<Rightarrow> pyfloat \<Rightarrow> bool" where
  "float_le x y = (float_lt x y \<or> float_eq x y)"

definition float_ge :: "pyfloat \<Rightarrow> pyfloat \<Rightarrow> bool" where
  "float_ge x y = float_le y x"

text \<open>\<^verbatim>\<open>-x\<close>, \<^verbatim>\<open>x + y\<close> and \<^verbatim>\<open>x * y\<close>.\<close>

fun float_neg :: "pyfloat \<Rightarrow> pyfloat" where
  "float_neg (Fin a) = Fin (- a)"
| "float_neg PosInf = NegInf"
| "float_neg NegInf = PosInf"
| "float_neg NaN = NaN"

fun float_add :: "pyfloat \<Rightarrow> pyfloat \<Rightarrow> pyfloat" where
  "float_add (Fin a) (Fin b) = Fin (a + b)"
| "float_add NaN y = NaN"
| "float_add x NaN = NaN"
| "float_add PosInf NegInf = NaN"
| "float_add NegInf PosInf = NaN"
| "float_add PosInf y = PosInf"
| "float_add x PosInf = PosInf"
| "float_add NegInf y = NegInf"
| "float_add x NegInf = NegInf"

fun float_mul :: "pyfloat \<Rightarrow> pyfloat \<Rightarrow> pyfloat" where
  "float_mul (Fin a) (Fin b) = Fin (a * b)"
| "float_mul NaN y = NaN"
| "float_mul x NaN = NaN"
| "float_mul PosInf (Fin b) = (if b = 0 then NaN else if 0 < b then PosInf else NegInf)"
| "float_mul NegInf (Fin b) = (if b = 0 then NaN else if 0 < b then NegInf else PosInf)"
| "float_mul (Fin a) PosInf = (if a = 0 then NaN else if 0 < a then PosInf else NegInf)"
| "float_mul (Fin a) NegInf = (if a = 0 then NaN else if 0 < a then NegInf else PosInf)"
| "float_mul PosInf PosInf = PosInf"
| "float_mul PosInf NegInf = NegInf"
| "float_mul NegInf PosInf = NegInf"
| "float_mul NegInf NegInf = PosInf"

text \<open>
  \<^verbatim>\<open>round(x, 2)\<close>: for a finite \<open>x\<close> the nearest multiple of one hundredth, a tie going to
  the even hundredth; an infinity or NaN is returned as it is.
\<close>

definition round2 :: "real \<Rightarrow> real" where
  "round2 x =
     (let y = x * 100; f = \<lfloor>y\<rfloor>; d = y - of_int f
      in of_int (if d < 1 / 2 then f
                 else if 1 / 2 < d then f + 1
                 else if even f then f else f + 1) / 100)"

fun float_round2 :: "pyfloat \<Rightarrow> pyfloat" where
  "float_round2 (Fin a) = Fin (round2 a)"
| "float_round2 x = x"

subsection \<open>The string and integer built-ins the script calls\<close>

text \<open>
  \<^verbatim>\<open>str.strip()\<close> removes leading and trailing whitespace: the characters that
  \<^verbatim>\<open>str.isspace\<close> accepts.
\<close>

definition is_space :: "char \<Rightarrow> bool" where
  "is_space c = (c \<in> set [CHR 0x09, CHR 0x0A, CHR 0x0B, CHR 0x0C, CHR 0x0D,
                            CHR 0x1C, CHR 0x1D, CHR 0x1E, CHR 0x1F, CHR '' '',
                            CHR 0x85, CHR 0xA0])"

definition py_strip :: "string \<Rightarrow> string" where
  "py_strip s = rev (dropWhile is_space (rev (dropWhile is_space s)))"

text \<open>\<^verbatim>\<open>str.lower()\<close>: the capital letters below 256 and their small letters.\<close>

definition capitals :: string where
  "capitals = ''ABCDEFGHIJKLMNOPQRSTUVWXYZ'' @
         [CHR 0xC0, CHR 0xC1, CHR 0xC2, CHR 0xC3, CHR 0xC4, CHR 0xC5, CHR 0xC6, CHR 0xC7,
          CHR 0xC8, CHR 0xC9, CHR 0xCA, CHR 0xCB, CHR 0xCC, CHR 0xCD, CHR 0xCE, CHR 0xCF,
          CHR 0xD0, CHR 0xD1, CHR 0xD2, CHR 0xD3, CHR 0xD4, CHR 0xD5, CHR 0xD6, CHR 0xD8,
          CHR 0xD9, CHR 0xDA, CHR 0xDB, CHR 0xDC, CHR 0xDD, CHR 0xDE]"

definition smalls :: string where
  "smalls = ''abcdefghijklmnopqrstuvwxyz'' @
         [CHR 0xE0, CHR 0xE1, CHR 0xE2, CHR 0xE3, CHR 0xE4, CHR 0xE5, CHR 0xE6, CHR 0xE7,
          CHR 0xE8, CHR 0xE9, CHR 0xEA, CHR 0xEB, CHR 0xEC, CHR 0xED, CHR 0xEE, CHR 0xEF,
          CHR 0xF0, CHR 0xF1, CHR 0xF2, CHR 0xF3, CHR 0xF4, CHR 0xF5, CHR 0xF6, CHR 0xF8,
          CHR 0xF9, CHR 0xFA, CHR 0xFB, CHR 0xFC, CHR 0xFD, CHR 0xFE]"

definition lower_char :: "char \<Rightarrow> char" where
  "lower_char c = (case map_of (zip capitals smalls) c of None \<Rightarrow> c | Some d \<Rightarrow> d)"

definition py_lower :: "string \<Rightarrow> string" where
  "py_lower s = map lower_char s"

text \<open>\<^verbatim>\<open>sep.join(items)\<close>.\<close>

fun py_join :: "string \<Rightarrow> string list \<Rightarrow> string" where
  "py_join sep [] = []"
| "py_join sep [x] = x"
| "py_join sep (x # y # ys) = x @ sep @ py_join sep (y # ys)"

text \<open>\<^verbatim>\<open>str(n)\<close> for an integer: its decimal digits, with a minus sign when negative.\<close>

definition is_digit :: "char \<Rightarrow> bool" where
  "is_digit c = (c \<in> set ''0123456789'')"

definition digit_val :: "char \<Rightarrow> nat" where
  "digit_val c = length (takeWhile (\<lambda>d. d \<noteq> c) ''0123456789'')"

definition digit_char :: "nat \<Rightarrow> char" where
  "digit_char n = ''0123456789'' ! n"

fun digits :: "nat \<Rightarrow> string" where
  "digits n = (if n < 10 then [digit_char n] else digits (n div 10) @ [digit_char (n mod 10)])"

declare digits.simps [simp del]

definition py_str :: "int \<Rightarrow> string" where
  "py_str n = (if n < 0 then CHR ''-'' # digits (nat (- n)) else digits (nat n))"

text \<open>
  \<^verbatim>\<open>int(s)\<close> for a string, base 10. The whitespace it ignores at both ends is narrower
  than that of \<^verbatim>\<open>strip\<close>: tab, line feed, vertical tab, form feed, carriage return and
  space, and of the characters from 128 on the two spaces 0x85 and 0xA0; the separators
  0x1C to 0x1F are not ignored. Then one sign is allowed, then decimal digits, with single
  underscores allowed between digits. Anything else raises \<^verbatim>\<open>ValueError\<close>.
\<close>

definition int_space :: "char \<Rightarrow> bool" where
  "int_space c = (c \<in> set [CHR 0x09, CHR 0x0A, CHR 0x0B, CHR 0x0C, CHR 0x0D, CHR '' '',
                             CHR 0x85, CHR 0xA0])"

definition int_strip :: "string \<Rightarrow> string" where
  "int_strip s = rev (dropWhile int_space (rev (dropWhile int_space s)))"

fun valid_digits :: "string \<Rightarrow> bool" where
  "valid_digits [] = False"
| "valid_digits [c] = is_digit c"
| "valid_digits (c # d # cs) =
     (is_digit c \<and> (if d = CHR ''_'' then valid_digits cs else valid_digits (d # cs)))"

definition digits_value :: "string \<Rightarrow> nat" where
  "digits_value ds =
     foldl (\<lambda>acc c. 10 * acc + digit_val c) 0 (filter (\<lambda>c. c \<noteq> CHR ''_'') ds)"

definition py_int :: "string \<Rightarrow> error + int" where
  "py_int s =
     (let t = int_strip s;
          neg = (t \<noteq> [] \<and> hd t = CHR ''-'');
          body = (if t \<noteq> [] \<and> (hd t = CHR ''-'' \<or> hd t = CHR ''+'') then tl t else t)
      in if valid_digits body
         then Inr (if neg then - int (digits_value body) else int (digits_value body))
         else Inl (ValueError_invalid_literal s))"

subsection \<open>The wheel\<close>

text \<open>The dictionary \<^verbatim>\<open>ROULETTE_COLORS\<close>, entry by entry.\<close>

definition ROULETTE_COLORS_items :: "(int \<times> string) list" where
  "ROULETTE_COLORS_items =
     [(0, ''green''),
      (1, ''red''),
      (2, ''black''),
      (3, ''red''),
      (4, ''black''),
      (5, ''red''),
      (6, ''black''),
      (7, ''red''),
      (8, ''black''),
      (9, ''red''),
      (10, ''black''),
      (11, ''black''),
      (12, ''red''),
      (13, ''black''),
      (14, ''red''),
      (15, ''black''),
      (16, ''red''),
      (17, ''black''),
      (18, ''red''),
      (19, ''red''),
      (20, ''black''),
      (21, ''red''),
      (22, ''black''),
      (23, ''red''),
      (24, ''black''),
      (25, ''red''),
      (26, ''black''),
      (27, ''red''),
      (28, ''black''),
      (29, ''black''),
      (30, ''red''),
      (31, ''black''),
      (32, ''red''),
      (33, ''black''),
      (34, ''red''),
      (35, ''black''),
      (36, ''red'')]"

definition ROULETTE_COLORS :: "int \<rightharpoonup> string" where
  "ROULETTE_COLORS = map_of ROULETTE_COLORS_items"

section \<open>The console, the random generator and the functions of the script\<close>

text \<open>
  What the script prints. Lines that format an amount keep the amount itself instead of
  its two-decimal rendering; every other line is its text.
\<close>

datatype printed =
    Text string
  | CurrentBalance pyfloat
  | EnterValueBetween pyfloat pyfloat
  | Won pyfloat
  | Lost pyfloat
  | Leave pyfloat

text \<open>
  The world outside the script: the lines still to be typed, the printed lines, and the
  random generator, given as the sequence of raw values it will produce and the number of
  draws made so far.
\<close>

record world =
  stdin :: "string list"
  entropy :: "nat \<Rightarrow> nat"
  draws :: nat
  stdout :: "printed list"

text \<open>\<^verbatim>\<open>print(line)\<close>.\<close>

definition py_print :: "printed \<Rightarrow> world \<Rightarrow> world" where
  "py_print line w = w\<lparr>stdout := stdout w @ [line]\<rparr>"

text \<open>\<^verbatim>\<open>input(prompt)\<close>: shows the prompt, then reads a line, or raises at the end of input.\<close>

definition py_input :: "string \<Rightarrow> world \<Rightarrow> (error + string) \<times> world" where
  "py_input prompt w =
     (case stdin w of
        [] \<Rightarrow> (Inl EOFError, py_print (Text prompt) w)
      | line # rest \<Rightarrow> (Inr line, (py_print (Text prompt) w)\<lparr>stdin := rest\<rparr>))"

text \<open>
  \<^verbatim>\<open>random.randint(lo, hi)\<close>: some integer from \<open>lo\<close> to \<open>hi\<close>, both included, fixed by
  the generator's next raw value. The script calls it with 0 and 36 only.
\<close>

definition randint :: "int \<Rightarrow> int \<Rightarrow> world \<Rightarrow> int \<times> world" where
  "randint lo hi w =
     (lo + int (entropy w (draws w) mod nat (hi - lo + 1)), w\<lparr>draws := Suc (draws w)\<rparr>)"

text \<open>
  \<^verbatim>\<open>prompt_float\<close>: asks until the line parses as a float that is neither below the minimum
  nor above the maximum, then returns it rounded to two decimals. NaN is neither below nor
  above anything, so it is let through. Python's \<^verbatim>\<open>float\<close> conversion is the parameter
  \<open>float_of\<close> (\<open>None\<close> when it raises \<^verbatim>\<open>ValueError\<close>). Each turn of the loop reads one line,
  so the loop ends with the input at the latest.
\<close>

function prompt_float ::
  "(string \<Rightarrow> pyfloat option) \<Rightarrow> string \<Rightarrow> pyfloat \<Rightarrow> pyfloat \<Rightarrow> world \<Rightarrow>
     (error + pyfloat) \<times> world" where
  "prompt_float float_of prompt minimum maximum w =
     (case py_input prompt w of
        (Inl e, w1) \<Rightarrow> (Inl e, w1)
      | (Inr line, w1) \<Rightarrow>
          (case float_of line of
             None \<Rightarrow>
               prompt_float float_of prompt minimum maximum
                 (py_print (Text ''Please enter a number.'') w1)
           | Some v \<Rightarrow>
               if float_lt v minimum \<or> float_gt v maximum
               then prompt_float float_of prompt minimum maximum
                      (py_print (EnterValueBetween minimum maximum) w1)
               else (Inr (float_round2 v), w1)))"
  by pat_completeness auto
termination
  by (relation "measure (\<lambda>(float_of, prompt, minimum, maximum, w). length (stdin w))")
    (auto simp: py_input_def py_print_def split: list.splits)

text \<open>\<^verbatim>\<open>prompt_choice\<close>: asks until the trimmed, lower-cased line is one of the choices.\<close>

function prompt_choice :: "string \<Rightarrow> string list \<Rightarrow> world \<Rightarrow> (error + string) \<times> world" where
  "prompt_choice prompt choices w =
     (let lowered = map py_lower choices in
      case py_input prompt w of
        (Inl e, w1) \<Rightarrow> (Inl e, w1)
      | (Inr line, w1) \<Rightarrow>
          (let selection = py_lower (py_strip line) in
           if selection \<in> set lowered then (Inr selection, w1)
           else prompt_choice prompt choices
                  (py_print (Text (''Invalid choice. Pick from: '' @ py_join '', '' choices)) w1)))"
  by pat_completeness auto
termination
  by (relation "measure (\<lambda>(prompt, choices, w). length (stdin w))")
    (auto simp: py_input_def py_print_def split: list.splits)

text \<open>\<^verbatim>\<open>spin_wheel\<close>: a pocket drawn from 0 to 36, with its colour looked up in the table.\<close>

definition spin_wheel :: "world \<Rightarrow> (error + int \<times> string) \<times> world" where
  "spin_wheel w =
     (case randint 0 36 w of
        (v, w1) \<Rightarrow>
          (case ROULETTE_COLORS v of
             None \<Rightarrow> (Inl (KeyError v), w1)
           | Some c \<Rightarrow> (Inr (v, c), w1)))"

text \<open>
  \<^verbatim>\<open>resolve_bet(bet_type, bet_value, bet_amount, outcome_value, outcome_color)\<close>, branch by
  branch. The number branch converts \<open>bet_value\<close> with \<^verbatim>\<open>int\<close>, which may raise. No
  statement of the body prints, reads, draws or assigns outside its locals, so every
  branch hands the world back as it got it.
\<close>

definition resolve_bet ::
  "string \<Rightarrow> string \<Rightarrow> pyfloat \<Rightarrow> int \<Rightarrow> string \<Rightarrow> world \<Rightarrow> (error + pyfloat) \<times> world" where
  "resolve_bet bet_type bet_value bet_amount outcome_value outcome_color w =
     (if bet_type = ''number'' then
        (case py_int bet_value of
           Inl e \<Rightarrow> (Inl e, w)
         | Inr n \<Rightarrow>
             if outcome_value = n then (Inr (float_mul bet_amount (Fin 35)), w)
             else (Inr (float_neg bet_amount), w))
      else if bet_type = ''color'' then
        (if outcome_color = bet_value then (Inr bet_amount, w)
         else (Inr (float_neg bet_amount), w))
      else if bet_type = ''parity'' then
        (if outcome_value = 0 then (Inr (float_neg bet_amount), w)
         else let parity = (if outcome_value mod 2 = 0 then ''even'' else ''odd'')
              in if parity = bet_value then (Inr bet_amount, w)
                 else (Inr (float_neg bet_amount), w))
      else (Inl (ValueError_unknown_bet_type bet_type), w))"

text \<open>
  The inner loop of \<^verbatim>\<open>main\<close> for a number bet: asks until the line is an integer from 0
  to 36, and keeps its text.
\<close>

function pick_number :: "world \<Rightarrow> (error + string) \<times> world" where
  "pick_number w =
     (case py_input ''Pick a number between 0 and 36: '' w of
        (Inl e, w1) \<Rightarrow> (Inl e, w1)
      | (Inr line, w1) \<Rightarrow>
          (case py_int line of
             Inl e \<Rightarrow> pick_number (py_print (Text ''Please enter an integer.'') w1)
           | Inr number \<Rightarrow>
               if 0 \<le> number \<and> number \<le> 36 then (Inr (py_str number), w1)
               else pick_number (py_print (Text ''Number must be between 0 and 36.'') w1)))"
  by pat_completeness auto
termination
  by (relation "measure (\<lambda>w. length (stdin w))")
    (auto simp: py_input_def py_print_def split: list.splits)

declare prompt_float.simps [simp del] prompt_choice.simps [simp del] pick_number.simps [simp del]

text \<open>
  The bets \<^verbatim>\<open>main\<close> can hand to \<^verbatim>\<open>resolve_bet\<close>: its prompts only let through a kind
  among the three, and for that kind the text of an integer from 0 to 36, one of the two
  colours, or one of the two parities.
\<close>

definition valid_bet :: "string \<Rightarrow> string \<Rightarrow> bool" where
  "valid_bet bet_kind bet_value =
     (bet_kind = ''number'' \<and> bet_value \<in> py_str ` {0..36}
      \<or> bet_kind = ''color'' \<and> bet_value \<in> {''red'', ''black''}
      \<or> bet_kind = ''parity'' \<and> bet_value \<in> {''even'', ''odd''})"

subsection \<open>One round of the session\<close>

text \<open>
  The body of the \<^verbatim>\<open>while\<close> loop of \<^verbatim>\<open>main\<close>, from the balance line to the win or loss
  line. It ends in one of three ways: the player cashed out (\<^verbatim>\<open>break\<close>), the bet was
  played, with its amount and the profit that \<^verbatim>\<open>resolve_bet\<close> returned, or an exception
  left the loop.
\<close>

datatype round_result = CashOut | Played pyfloat pyfloat | Raised error

definition main_round ::
  "(string \<Rightarrow> pyfloat option) \<Rightarrow> pyfloat \<Rightarrow> world \<Rightarrow> round_result \<times> world" where
  "main_round float_of balance w =
     (case prompt_float float_of ''Enter bet amount (or 0 to cash out): '' (Fin 0) balance
             (py_print (CurrentBalance balance) w) of
        (Inl e, w1) \<Rightarrow> (Raised e, w1)
      | (Inr bet_amount, w1) \<Rightarrow>
          if float_eq bet_amount (Fin 0) then (CashOut, w1)
          else
            (case prompt_choice ''Choose bet type (number/color/parity): ''
                    [''number'', ''color'', ''parity''] w1 of
               (Inl e, w2) \<Rightarrow> (Raised e, w2)
             | (Inr bet_kind, w2) \<Rightarrow>
                 (case (if bet_kind = ''number'' then pick_number w2
                        else if bet_kind = ''color''
                        then prompt_choice ''Pick a color (red/black): '' [''red'', ''black''] w2
                        else prompt_choice ''Pick parity (even/odd): '' [''even'', ''odd''] w2) of
                    (Inl e, w3) \<Rightarrow> (Raised e, w3)
                  | (Inr bet_value, w3) \<Rightarrow>
                      (case spin_wheel (py_print (Text ''Spinning the wheel...'') w3) of
                         (Inl e, w4) \<Rightarrow> (Raised e, w4)
                       | (Inr (value, color), w4) \<Rightarrow>
                           (case resolve_bet bet_kind bet_value bet_amount value color
                                   (py_print
                                      (Text (''The ball landed on '' @ py_str value @ '' (''
                                             @ color @ '').'')) w4) of
                              (Inl e, w5) \<Rightarrow> (Raised e, w5)
                            | (Inr profit, w5) \<Rightarrow>
                                (Played bet_amount profit,
                                 py_print (if float_ge profit (Fin 0) then Won profit
                                           else Lost (float_neg profit)) w5))))))"

section \<open>What the prompts read and return\<close>

lemma py_print_frame [simp]:
  "stdin (py_print x w) = stdin w" "draws (py_print x w) = draws w"
  "entropy (py_print x w) = entropy w"
  by (simp_all add: py_print_def)

text \<open>
  The world after \<^verbatim>\<open>input(prompt)\<close> has read a line: the prompt is shown, the line is
  gone.
\<close>

definition consume :: "string \<Rightarrow> world \<Rightarrow> world" where
  "consume prompt w = (py_print (Text prompt) w)\<lparr>stdin := tl (stdin w)\<rparr>"

lemma consume_frame [simp]:
  "stdin (consume p w) = tl (stdin w)" "draws (consume p w) = draws w"
  "entropy (consume p w) = entropy w"
  by (simp_all add: consume_def)

lemma py_input_Nil: "stdin w = [] \<Longrightarrow> py_input p w = (Inl EOFError, py_print (Text p) w)"
  by (simp add: py_input_def)

lemma py_input_Cons: "stdin w = l # ls \<Longrightarrow> py_input p w = (Inr l, consume p w)"
  by (simp add: py_input_def consume_def)

lemma prompt_float_Nil:
  "stdin w = [] \<Longrightarrow> prompt_float f p mn mx w = (Inl EOFError, py_print (Text p) w)"
  by (subst prompt_float.simps) (simp add: py_input_Nil)

lemma prompt_float_Cons:
  "stdin w = l # ls \<Longrightarrow>
   prompt_float f p mn mx w =
     (case f l of
        None \<Rightarrow> prompt_float f p mn mx (py_print (Text ''Please enter a number.'') (consume p w))
      | Some v \<Rightarrow>
          if float_lt v mn \<or> float_gt v mx
          then prompt_float f p mn mx (py_print (EnterValueBetween mn mx) (consume p w))
          else (Inr (float_round2 v), consume p w))"
  by (subst prompt_float.simps) (simp add: py_input_Cons)

lemma prompt_float_cases:
  assumes "stdin w = l # ls"
  obtains (again) x where
      "prompt_float f p mn mx w = prompt_float f p mn mx (py_print x (consume p w))"
    | (accept) v where "f l = Some v" "\<not> float_lt v mn" "\<not> float_gt v mx"
      "prompt_float f p mn mx w = (Inr (float_round2 v), consume p w)"
proof (cases "f l")
  case None
  with assms again show ?thesis
    by (simp add: prompt_float_Cons)
next
  case (Some v)
  with assms again accept show ?thesis
    by (cases "float_lt v mn \<or> float_gt v mx") (simp_all add: prompt_float_Cons)
qed

lemma prompt_float_frame:
  "prompt_float f p mn mx w = (r, w') \<Longrightarrow>
     length (stdin w') \<le> length (stdin w) \<and> draws w' = draws w \<and> entropy w' = entropy w"
proof (induction "stdin w" arbitrary: w)
  case Nil
  then show ?case
    by (auto simp: prompt_float_Nil)
next
  case (Cons l ls)
  from Cons(2) have st: "stdin w = l # ls"
    by simp
  show ?case
  proof (rule prompt_float_cases[OF st, of f p mn mx])
    fix x
    assume again: "prompt_float f p mn mx w = prompt_float f p mn mx (py_print x (consume p w))"
    have "ls = stdin (py_print x (consume p w))"
      by (simp add: st)
    from Cons(1)[OF this] Cons(3) again show ?thesis
      by (simp add: st)
  next
    fix v
    assume accept: "f l = Some v" "\<not> float_lt v mn" "\<not> float_gt v mx"
      "prompt_float f p mn mx w = (Inr (float_round2 v), consume p w)"
    with Cons(3) show ?thesis
      by (auto simp: st)
  qed
qed

lemma prompt_float_Inr:
  "prompt_float f p mn mx w = (Inr r, w') \<Longrightarrow>
     length (stdin w') < length (stdin w)
     \<and> (\<exists>l v. l \<in> set (stdin w) \<and> f l = Some v \<and> \<not> float_lt v mn \<and> \<not> float_gt v mx
            \<and> r = float_round2 v)"
proof (induction "stdin w" arbitrary: w)
  case Nil
  then show ?case
    by (auto simp: prompt_float_Nil)
next
  case (Cons l ls)
  from Cons(2) have st: "stdin w = l # ls"
    by simp
  show ?case
  proof (rule prompt_float_cases[OF st, of f p mn mx])
    fix x
    assume again: "prompt_float f p mn mx w = prompt_float f p mn mx (py_print x (consume p w))"
    have "ls = stdin (py_print x (consume p w))"
      by (simp add: st)
    from Cons(1)[OF this] Cons(3) again
    have "length (stdin w') < length ls
      \<and> (\<exists>l v. l \<in> set ls \<and> f l = Some v \<and> \<not> float_lt v mn \<and> \<not> float_gt v mx
            \<and> r = float_round2 v)"
      by (simp add: st)
    then show ?thesis
      by (auto simp: st)
  next
    fix v
    assume accept: "f l = Some v" "\<not> float_lt v mn" "\<not> float_gt v mx"
      "prompt_float f p mn mx w = (Inr (float_round2 v), consume p w)"
    with Cons(3) have "r = float_round2 v" "w' = consume p w"
      by simp_all
    with accept show ?thesis
      by (auto simp: st)
  qed
qed

lemma prompt_choice_Nil:
  "stdin w = [] \<Longrightarrow> prompt_choice p cs w = (Inl EOFError, py_print (Text p) w)"
  by (subst prompt_choice.simps) (simp add: py_input_Nil)

lemma prompt_choice_Cons:
  "stdin w = l # ls \<Longrightarrow>
   prompt_choice p cs w =
     (if py_lower (py_strip l) \<in> set (map py_lower cs)
      then (Inr (py_lower (py_strip l)), consume p w)
      else prompt_choice p cs
             (py_print (Text (''Invalid choice. Pick from: '' @ py_join '', '' cs))
                (consume p w)))"
  by (subst prompt_choice.simps) (simp add: py_input_Cons Let_def)

lemma prompt_choice_frame:
  "prompt_choice p cs w = (r, w') \<Longrightarrow>
     length (stdin w') \<le> length (stdin w) \<and> draws w' = draws w \<and> entropy w' = entropy w
     \<and> (\<forall>s. r = Inr s \<longrightarrow> s \<in> set (map py_lower cs))"
proof (induction "stdin w" arbitrary: w)
  case Nil
  then show ?case
    by (auto simp: prompt_choice_Nil)
next
  case (Cons l ls)
  from Cons(2) have st: "stdin w = l # ls"
    by simp
  show ?case
  proof (cases "py_lower (py_strip l) \<in> set (map py_lower cs)")
    case True
    with Cons(3) show ?thesis
      by (auto simp: prompt_choice_Cons[OF st] st)
  next
    case False
    let ?w = "py_print (Text (''Invalid choice. Pick from: '' @ py_join '', '' cs)) (consume p w)"
    have "ls = stdin ?w"
      by (simp add: st)
    moreover from False Cons(3) have "prompt_choice p cs ?w = (r, w')"
      by (simp add: prompt_choice_Cons[OF st])
    ultimately have "length (stdin w') \<le> length (stdin ?w) \<and> draws w' = draws ?w
        \<and> entropy w' = entropy ?w \<and> (\<forall>s. r = Inr s \<longrightarrow> s \<in> set (map py_lower cs))"
      by (rule Cons(1))
    then show ?thesis
      by (simp add: st)
  qed
qed

lemma pick_number_Nil:
  "stdin w = [] \<Longrightarrow>
   pick_number w = (Inl EOFError, py_print (Text ''Pick a number between 0 and 36: '') w)"
  by (subst pick_number.simps) (simp add: py_input_Nil)

lemma pick_number_Cons:
  "stdin w = l # ls \<Longrightarrow>
   pick_number w =
     (case py_int l of
        Inl e \<Rightarrow>
          pick_number (py_print (Text ''Please enter an integer.'')
            (consume ''Pick a number between 0 and 36: '' w))
      | Inr number \<Rightarrow>
          if 0 \<le> number \<and> number \<le> 36
          then (Inr (py_str number), consume ''Pick a number between 0 and 36: '' w)
          else pick_number (py_print (Text ''Number must be between 0 and 36.'')
                 (consume ''Pick a number between 0 and 36: '' w)))"
  by (subst pick_number.simps) (simp add: py_input_Cons)

lemma pick_number_frame:
  "pick_number w = (r, w') \<Longrightarrow>
     length (stdin w') \<le> length (stdin w) \<and> draws w' = draws w \<and> entropy w' = entropy w
     \<and> (\<forall>s. r = Inr s \<longrightarrow> s \<in> py_str ` {0..36})"
proof (induction "stdin w" arbitrary: w)
  case Nil
  then show ?case
    by (auto simp: pick_number_Nil)
next
  case (Cons l ls)
  from Cons(2) have st: "stdin w = l # ls"
    by simp
  let ?c = "consume ''Pick a number between 0 and 36: '' w"
  have again: "length (stdin w') \<le> length (stdin w) \<and> draws w' = draws w
      \<and> entropy w' = entropy w \<and> (\<forall>s. r = Inr s \<longrightarrow> s \<in> py_str ` {0..36})"
    if "pick_number (py_print x ?c) = (r, w')" for x
  proof -
    have "ls = stdin (py_print x ?c)"
      by (simp add: st)
    from Cons(1)[OF this that] show ?thesis
      by (simp add: st)
  qed
  show ?case
  proof (cases "py_int l")
    case (Inl e)
    with Cons(3) show ?thesis
      by (intro again) (simp add: pick_number_Cons[OF st])
  next
    case (Inr number)
    show ?thesis
    proof (cases "0 \<le> number \<and> number \<le> 36")
      case True
      with Inr Cons(3) show ?thesis
        by (auto simp: pick_number_Cons[OF st] st)
    next
      case False
      with Inr Cons(3) show ?thesis
        by (intro again) (simp add: pick_number_Cons[OF st])
    qed
  qed
qed

lemma randint_range:
  "lo \<le> hi \<Longrightarrow> randint lo hi w = (v, w') \<Longrightarrow>
     lo \<le> v \<and> v \<le> hi \<and> w' = w\<lparr>draws := Suc (draws w)\<rparr>"
proof -
  assume le: "lo \<le> hi" and r: "randint lo hi w = (v, w')"
  define k where "k = entropy w (draws w) mod nat (hi - lo + 1)"
  have "k < nat (hi - lo + 1)"
    unfolding k_def using le by (intro mod_less_divisor) simp
  then have "int k \<le> hi - lo"
    by linarith
  moreover from r have "v = lo + int k" "w' = w\<lparr>draws := Suc (draws w)\<rparr>"
    by (auto simp: randint_def k_def)
  ultimately show ?thesis
    by simp
qed

lemma dom_ROULETTE_COLORS: "dom ROULETTE_COLORS = {0..36}"
proof -
  have "{0..36::int} = set [0..36]"
    by simp
  also have "[0..36::int] = map fst ROULETTE_COLORS_items"
    by (simp add: ROULETTE_COLORS_items_def upto_rec1)
  finally show ?thesis
    by (simp add: ROULETTE_COLORS_def dom_map_of_conv_image_fst)
qed

lemma spin_wheel_result:
  "spin_wheel w = (r, w') \<Longrightarrow>
     w' = w\<lparr>draws := Suc (draws w)\<rparr>
     \<and> (\<exists>v c. r = Inr (v, c) \<and> 0 \<le> v \<and> v \<le> 36 \<and> ROULETTE_COLORS v = Some c)"
proof -
  assume s: "spin_wheel w = (r, w')"
  obtain v w1 where d: "randint 0 36 w = (v, w1)"
    by (cases "randint 0 36 w")
  from randint_range[OF _ d] have v: "0 \<le> v" "v \<le> 36" and w1: "w1 = w\<lparr>draws := Suc (draws w)\<rparr>"
    by simp_all
  from v have "v \<in> dom ROULETTE_COLORS"
    by (simp add: dom_ROULETTE_COLORS)
  then obtain c where "ROULETTE_COLORS v = Some c"
    by auto
  with s d v w1 show ?thesis
    by (auto simp: spin_wheel_def)
qed

lemma lowered_choices:
  "py_lower ''number'' = ''number''" "py_lower ''color'' = ''color''"
  "py_lower ''parity'' = ''parity''" "py_lower ''red'' = ''red''" "py_lower ''black'' = ''black''"
  "py_lower ''even'' = ''even''" "py_lower ''odd'' = ''odd''"
  by (simp_all add: py_lower_def lower_char_def capitals_def smalls_def)

text \<open>\<^verbatim>\<open>resolve_bet\<close> hands the world back, and its result does not depend on the world.\<close>

lemma resolve_bet_world:
  "snd (resolve_bet t v a ov oc w) = w"
  "fst (resolve_bet t v a ov oc w) = fst (resolve_bet t v a ov oc w')"
  by (simp_all add: resolve_bet_def Let_def split: sum.splits)

lemma resolve_bet_Inr:
  "resolve_bet t v a ov oc w = (Inr p, w') \<Longrightarrow>
     w' = w \<and> (\<forall>wx. resolve_bet t v a ov oc wx = (Inr p, wx))"
proof -
  assume r: "resolve_bet t v a ov oc w = (Inr p, w')"
  have "resolve_bet t v a ov oc wx = (Inr p, wx)" for wx
    using resolve_bet_world(1)[of t v a ov oc wx] resolve_bet_world(2)[of t v a ov oc wx w] r
    by (simp add: prod_eq_iff)
  moreover from r resolve_bet_world(1)[of t v a ov oc w] have "w' = w"
    by simp
  ultimately show ?thesis
    by simp
qed

lemma main_round_Played:
  assumes "main_round f b w = (Played a p, w')"
  shows "length (stdin w') < length (stdin w)"
    and "draws w' = Suc (draws w)"
    and "\<not> float_eq a (Fin 0)"
    and "\<exists>l x. l \<in> set (stdin w) \<and> f l = Some x \<and> \<not> float_lt x (Fin 0) \<and> \<not> float_gt x b
            \<and> a = float_round2 x"
    and "\<exists>k v ov oc. valid_bet k v \<and> 0 \<le> ov \<and> ov \<le> 36 \<and> ROULETTE_COLORS ov = Some oc
            \<and> (\<forall>wx. resolve_bet k v a ov oc wx = (Inr p, wx))"
proof -
  let ?w0 = "py_print (CurrentBalance b) w"
  obtain r1 w1 where s1:
    "prompt_float f ''Enter bet amount (or 0 to cash out): '' (Fin 0) b ?w0 = (r1, w1)"
    by (cases "prompt_float f ''Enter bet amount (or 0 to cash out): '' (Fin 0) b ?w0")
  with assms obtain amount where r1: "r1 = Inr amount" and nz: "\<not> float_eq amount (Fin 0)"
    by (cases r1) (auto simp: main_round_def split: if_splits)
  obtain r2 w2 where s2:
    "prompt_choice ''Choose bet type (number/color/parity): ''
       [''number'', ''color'', ''parity''] w1 = (r2, w2)"
    by (cases "prompt_choice ''Choose bet type (number/color/parity): ''
       [''number'', ''color'', ''parity''] w1")
  with assms s1 r1 nz obtain kind where r2: "r2 = Inr kind"
    by (cases r2) (auto simp: main_round_def)
  let ?pick = "if kind = ''number'' then pick_number w2
      else if kind = ''color''
      then prompt_choice ''Pick a color (red/black): '' [''red'', ''black''] w2
      else prompt_choice ''Pick parity (even/odd): '' [''even'', ''odd''] w2"
  obtain r3 w3 where s3: "?pick = (r3, w3)"
    by (cases ?pick)
  with assms s1 r1 nz s2 r2 obtain val where r3: "r3 = Inr val"
    by (cases r3) (auto simp: main_round_def)
  obtain r4 w4 where s4: "spin_wheel (py_print (Text ''Spinning the wheel...'') w3) = (r4, w4)"
    by (cases "spin_wheel (py_print (Text ''Spinning the wheel...'') w3)")
  from spin_wheel_result[OF s4] obtain ov oc where r4: "r4 = Inr (ov, oc)"
    and ov: "0 \<le> ov" "ov \<le> 36" "ROULETTE_COLORS ov = Some oc"
    and w4: "w4 = (py_print (Text ''Spinning the wheel...'') w3)\<lparr>draws := Suc (draws w3)\<rparr>"
    by auto
  let ?w4 = "py_print (Text (''The ball landed on '' @ py_str ov @ '' ('' @ oc @ '').'')) w4"
  obtain r5 w5 where s5: "resolve_bet kind val amount ov oc ?w4 = (r5, w5)"
    by (cases "resolve_bet kind val amount ov oc ?w4")
  from assms s1 r1 nz s2 r2 s3 r3 s4 r4 s5
  have r5: "r5 = Inr p" and a: "a = amount"
    and w': "w' = py_print (if float_ge p (Fin 0) then Won p else Lost (float_neg p)) w5"
    by (auto simp: main_round_def split: sum.splits)
  from resolve_bet_Inr[OF s5[unfolded r5]]
  have w5: "w5 = ?w4" and res: "\<forall>wx. resolve_bet kind val amount ov oc wx = (Inr p, wx)"
    by simp_all
  from prompt_float_Inr[OF s1[unfolded r1]] prompt_float_frame[OF s1]
  have f1: "length (stdin w1) < length (stdin w)" "draws w1 = draws w"
    and acc: "\<exists>l x. l \<in> set (stdin w) \<and> f l = Some x \<and> \<not> float_lt x (Fin 0)
        \<and> \<not> float_gt x b \<and> amount = float_round2 x"
    by auto
  from prompt_choice_frame[OF s2] r2
  have f2: "length (stdin w2) \<le> length (stdin w1)" "draws w2 = draws w1"
    and kind: "kind \<in> {''number'', ''color'', ''parity''}"
    by (auto simp: lowered_choices)
  have f3: "length (stdin w3) \<le> length (stdin w2) \<and> draws w3 = draws w2 \<and> valid_bet kind val"
  proof (cases "kind = ''number''")
    case True
    with s3 pick_number_frame[of w2 r3 w3] r3 show ?thesis
      by (simp add: valid_bet_def)
  next
    case False
    note nn = this
    show ?thesis
    proof (cases "kind = ''color''")
      case True
      with s3 r3
        prompt_choice_frame[of "''Pick a color (red/black): ''" "[''red'', ''black'']" w2 r3 w3]
      show ?thesis
        by (simp add: valid_bet_def lowered_choices)
    next
      case False
      with nn kind have "kind = ''parity''"
        by simp
      with s3 r3
        prompt_choice_frame[of "''Pick parity (even/odd): ''" "[''even'', ''odd'']" w2 r3 w3]
      show ?thesis
        by (simp add: valid_bet_def lowered_choices)
    qed
  qed
  from f1 f2 f3 w4 w5 w' show "length (stdin w') < length (stdin w)"
    by simp
  from f1 f2 f3 w4 w5 w' show "draws w' = Suc (draws w)"
    by simp
  from nz a show "\<not> float_eq a (Fin 0)"
    by simp
  from acc a show "\<exists>l x. l \<in> set (stdin w) \<and> f l = Some x \<and> \<not> float_lt x (Fin 0)
      \<and> \<not> float_gt x b \<and> a = float_round2 x"
    by simp
  from f3 ov res a show "\<exists>k v ov oc. valid_bet k v \<and> 0 \<le> ov \<and> ov \<le> 36
      \<and> ROULETTE_COLORS ov = Some oc \<and> (\<forall>wx. resolve_bet k v a ov oc wx = (Inr p, wx))"
    by blast
qed

section \<open>The session loop\<close>

text \<open>
  The \<^verbatim>\<open>while balance > 0\<close> loop of \<^verbatim>\<open>main\<close>. A played round has read at least one
  line, which is why the loop ends.
\<close>

function main_loop ::
  "(string \<Rightarrow> pyfloat option) \<Rightarrow> pyfloat \<Rightarrow> world \<Rightarrow> (error + pyfloat) \<times> world" where
  "main_loop float_of balance w =
     (if float_gt balance (Fin 0) then
        (case main_round float_of balance w of
           (CashOut, w1) \<Rightarrow> (Inr balance, w1)
         | (Played bet_amount profit, w1) \<Rightarrow>
             main_loop float_of (float_add balance profit) w1
         | (Raised e, w1) \<Rightarrow> (Inl e, w1))
      else (Inr balance, w))"
  by pat_completeness auto
termination
proof (relation "measure (\<lambda>(float_of, balance, w). length (stdin w))")
  show "wf (measure (\<lambda>(float_of, balance, w). length (stdin w)))"
    by simp
next
  fix float_of :: "string \<Rightarrow> pyfloat option" and balance :: pyfloat and w :: world
    and r w1 bet_amount profit
  assume "(r, w1) = main_round float_of balance w" and "r = Played bet_amount profit"
  then have "main_round float_of balance w = (Played bet_amount profit, w1)"
    by simp
  from main_round_Played(1)[OF this]
  show "((float_of, float_add balance profit, w1), float_of, balance, w)
      \<in> measure (\<lambda>(float_of, balance, w). length (stdin w))"
    by simp
qed

declare main_loop.simps [simp del]

text \<open>
  \<^verbatim>\<open>main\<close>: the greeting, the loop from a balance of 100, and the closing line with the
  final balance.
\<close>

definition main :: "(string \<Rightarrow> pyfloat option) \<Rightarrow> world \<Rightarrow> (error + unit) \<times> world" where
  "main float_of w =
     (case main_loop float_of (Fin 100)
             (py_print (Text ''=== Welcome to CLI Roulette ==='') w) of
        (Inl e, w1) \<Rightarrow> (Inl e, w1)
      | (Inr balance, w1) \<Rightarrow> (Inr (), py_print (Leave balance) w1))"

subsection \<open>Sequences of rounds\<close>

text \<open>
  A played round, as the loop sees it: the balance on entry, the amount that the bet-amount
  prompt returned, and the profit that \<^verbatim>\<open>resolve_bet\<close> returned.
\<close>

record played =
  round_entry :: pyfloat
  round_amount :: pyfloat
  round_profit :: pyfloat

text \<open>
  \<open>rounds float_of b w rs b' w'\<close>: the loop, entered with balance \<open>b\<close> in world \<open>w\<close>, plays
  the rounds \<open>rs\<close> one after the other and is then back at its entry with balance \<open>b'\<close> in
  world \<open>w'\<close>. Each round passes the loop test and adds its profit to the balance.
\<close>

inductive rounds ::
  "(string \<Rightarrow> pyfloat option) \<Rightarrow> pyfloat \<Rightarrow> world \<Rightarrow> played list \<Rightarrow> pyfloat \<Rightarrow> world \<Rightarrow> bool"
  for float_of :: "string \<Rightarrow> pyfloat option" where
    rounds_Nil: "rounds float_of b w [] b w"
  | rounds_Cons:
      "float_gt b (Fin 0) \<Longrightarrow> main_round float_of b w = (Played a p, w1) \<Longrightarrow>
       rounds float_of (float_add b p) w1 rs b' w' \<Longrightarrow>
       rounds float_of b w
         (\<lparr>round_entry = b, round_amount = a, round_profit = p\<rparr> # rs) b' w'"

subsection \<open>Sample sessions\<close>

text \<open>
  Concrete runs, used to exercise the theorems below. The player's lines are listed in the
  order typed; \<open>sample_float\<close> gives the value of \<^verbatim>\<open>float\<close> on the amounts typed in these
  runs; the generator's raw values are all 2, so every spin lands on pocket 2, which is
  black.
\<close>

definition sample_float :: "string \<Rightarrow> pyfloat option" where
  "sample_float =
     map_of [(''0'', Fin 0), (''0.004'', Fin (4 / 1000)), (''0.006'', Fin (6 / 1000)),
             (''10'', Fin 10), (''110'', Fin 110), (''nan'', NaN), (''inf'', PosInf)]"

definition sample_world :: "string list \<Rightarrow> world" where
  "sample_world typed = \<lparr>stdin = typed, entropy = (\<lambda>_. 2), draws = 0, stdout = []\<rparr>"

definition greeted :: "string list \<Rightarrow> world" where
  "greeted typed = py_print (Text ''=== Welcome to CLI Roulette ==='') (sample_world typed)"

definition after_first :: "string list \<Rightarrow> world" where
  "after_first typed =
     \<lparr>stdin = typed, entropy = (\<lambda>_. 2), draws = 1,
      stdout = [Text ''=== Welcome to CLI Roulette ==='', CurrentBalance (Fin 100),
                Text ''Enter bet amount (or 0 to cash out): '',
                Text ''Choose bet type (number/color/parity): '',
                Text ''Pick a color (red/black): '', Text ''Spinning the wheel...'',
                Text ''The ball landed on 2 (black).'', Won (Fin 10)]\<rparr>"

definition after_second :: world where
  "after_second =
     \<lparr>stdin = [], entropy = (\<lambda>_. 2), draws = 2,
      stdout = stdout (after_first []) @
               [CurrentBalance (Fin 110), Text ''Enter bet amount (or 0 to cash out): '',
                Text ''Choose bet type (number/color/parity): '',
                Text ''Pick parity (even/odd): '', Text ''Spinning the wheel...'',
                Text ''The ball landed on 2 (black).'', Lost (Fin 110)]\<rparr>"

definition after_cash_out :: world where
  "after_cash_out =
     \<lparr>stdin = [], entropy = (\<lambda>_. 2), draws = 1,
      stdout = stdout (after_first []) @
               [CurrentBalance (Fin 110), Text ''Enter bet amount (or 0 to cash out): '']\<rparr>"

definition after_nan :: world where
  "after_nan =
     \<lparr>stdin = [], entropy = (\<lambda>_. 2), draws = 1,
      stdout = [Text ''=== Welcome to CLI Roulette ==='', CurrentBalance (Fin 100),
                Text ''Enter bet amount (or 0 to cash out): '',
                Text ''Choose bet type (number/color/parity): '',
                Text ''Pick a color (red/black): '', Text ''Spinning the wheel...'',
                Text ''The ball landed on 2 (black).'', Lost NaN]\<rparr>"

section \<open>Properties of the built-ins\<close>

lemma digit_char_lt: "n < 10 \<Longrightarrow> is_digit (digit_char n) \<and> digit_val (digit_char n) = n"
proof -
  assume "n < 10"
  then have "n \<in> {0, 1, 2, 3, 4, 5, 6, 7, 8, 9}"
    by auto
  then show ?thesis
    by (auto simp: is_digit_def digit_val_def digit_char_def)
qed

lemma digits_ne: "digits n \<noteq> []"
  by (subst digits.simps) simp

lemma digits_all: "c \<in> set (digits n) \<Longrightarrow> is_digit c"
proof (induction n arbitrary: c rule: digits.induct)
  case (1 n)
  show ?case
  proof (cases "n < 10")
    case True
    with 1(2) show ?thesis
      by (subst (asm) digits.simps) (simp add: digit_char_lt)
  next
    case False
    with 1 show ?thesis
      by (subst (asm) (2) digits.simps) (auto simp: digit_char_lt)
  qed
qed

lemma valid_digits_all: "ds \<noteq> [] \<Longrightarrow> \<forall>c\<in>set ds. is_digit c \<Longrightarrow> valid_digits ds"
  by (induction ds rule: valid_digits.induct) (auto simp: is_digit_def)

lemma is_digit_plain:
  "is_digit c \<Longrightarrow> c \<noteq> CHR ''_'' \<and> c \<noteq> CHR ''-'' \<and> c \<noteq> CHR ''+'' \<and> \<not> int_space c"
  by (auto simp: is_digit_def int_space_def)

lemma digits_value_digits: "digits_value (digits n) = n"
proof (induction n rule: digits.induct)
  case (1 n)
  show ?case
  proof (cases "n < 10")
    case True
    then show ?thesis
      by (subst digits.simps) (simp add: digits_value_def digit_char_lt is_digit_plain)
  next
    case False
    have keep: "filter (\<lambda>c. c \<noteq> CHR ''_'') (digits (n div 10)) = digits (n div 10)"
      by (simp add: filter_id_conv digits_all is_digit_plain)
    from 1[OF False] keep
    have "foldl (\<lambda>acc c. 10 * acc + digit_val c) 0 (digits (n div 10)) = n div 10"
      by (simp add: digits_value_def)
    with False keep show ?thesis
      by (subst digits.simps) (simp add: digits_value_def digit_char_lt is_digit_plain)
  qed
qed

lemma dropWhile_hd_id: "xs \<noteq> [] \<Longrightarrow> \<not> P (hd xs) \<Longrightarrow> dropWhile P xs = xs"
  by (cases xs) simp_all

lemma int_strip_id:
  "s \<noteq> [] \<Longrightarrow> \<not> int_space (hd s) \<Longrightarrow> \<not> int_space (last s) \<Longrightarrow>
     int_strip s = s"
  by (simp add: int_strip_def dropWhile_hd_id hd_rev)

lemma hd_digits: "is_digit (hd (digits n))"
  using digits_ne[of n] digits_all[of _ n] by simp

lemma last_digits: "is_digit (last (digits n))"
  using digits_ne[of n] digits_all[of _ n] by simp

lemma py_int_digits: "py_int (digits n) = Inr (int n)"
  using hd_digits[of n] last_digits[of n] digits_ne[of n]
  by (simp add: py_int_def Let_def int_strip_id is_digit_plain valid_digits_all digits_all
      digits_value_digits)

text \<open>\<^verbatim>\<open>int(str(n)) == n\<close> for every integer.\<close>

lemma py_int_py_str: "py_int (py_str n) = Inr n"
proof (cases "n < 0")
  case False
  then show ?thesis
    by (simp add: py_str_def py_int_digits)
next
  case True
  have "int_strip (CHR ''-'' # digits (nat (- n))) = CHR ''-'' # digits (nat (- n))"
  proof (rule int_strip_id)
    show "\<not> int_space (hd (CHR ''-'' # digits (nat (- n))))"
      by (simp add: int_space_def)
    show "\<not> int_space (last (CHR ''-'' # digits (nat (- n))))"
      using last_digits[of "nat (- n)"] by (simp add: digits_ne is_digit_plain)
  qed simp
  with True show ?thesis
    by (simp add: py_str_def py_int_def Let_def valid_digits_all digits_all digits_ne
        digits_value_digits)
qed

text \<open>
  The separators 0x1C to 0x1F are whitespace for \<^verbatim>\<open>strip\<close> but not for \<^verbatim>\<open>int\<close>, and the
  no-break space is whitespace for both.
\<close>

lemma py_int_separator:
  "py_int [CHR 0x1C, CHR ''7''] = Inl (ValueError_invalid_literal [CHR 0x1C, CHR ''7''])"
  by (simp add: py_int_def int_strip_def int_space_def is_digit_def)

lemma py_int_no_break_space: "py_int [CHR 0xA0, CHR ''7''] = Inr 7"
  by (simp add: py_int_def int_strip_def int_space_def is_digit_def digits_value_def
      digit_val_def)

lemma py_strip_separator: "py_strip ([CHR 0x1C] @ ''red'' @ [CHR 0x85, CHR 0xA0]) = ''red''"
  by (simp add: py_strip_def is_space_def)

section \<open>Bet resolution\<close>

lemma py_str_small: "py_str 17 = ''17''" "py_str 5 = ''5''"
  by (simp_all add: py_str_def digits.simps digit_char_def)

lemma number_bet_result:
  "resolve_bet ''number'' (py_str n) x ov oc w
     = (Inr (if ov = n then float_mul x (Fin 35) else float_neg x), w)"
  by (simp add: resolve_bet_def py_int_py_str)

text \<open>
  A number bet whose text is not an integer makes \<^verbatim>\<open>int\<close> raise inside \<^verbatim>\<open>resolve_bet\<close>;
  the prompts of \<^verbatim>\<open>main\<close> never produce such a bet.
\<close>

lemma malformed_number_bet:
  "resolve_bet ''number'' ''x'' a ov oc w = (Inl (ValueError_invalid_literal ''x''), w)"
  by (simp add: resolve_bet_def py_int_def int_strip_def int_space_def is_digit_def)

lemma py_int_Inl: "py_int s = Inl e \<Longrightarrow> e = ValueError_invalid_literal s"
  by (auto simp: py_int_def Let_def split: if_splits)

lemma resolve_bet_valid:
  assumes "valid_bet k v"
  shows "k = ''number''
           \<and> (resolve_bet k v a ov oc w = (Inr (float_mul a (Fin 35)), w)
               \<or> resolve_bet k v a ov oc w = (Inr (float_neg a), w))
       \<or> k \<noteq> ''number''
           \<and> (resolve_bet k v a ov oc w = (Inr a, w)
               \<or> resolve_bet k v a ov oc w = (Inr (float_neg a), w))"
proof -
  from assms consider
      (number) n where "k = ''number''" "v = py_str n"
    | (color) "k = ''color''"
    | (parity) "k = ''parity''"
    by (auto simp: valid_bet_def)
  then show ?thesis
  proof cases
    case (number n)
    then show ?thesis
      by (simp add: number_bet_result)
  next
    case color
    then show ?thesis
      by (simp add: resolve_bet_def)
  next
    case parity
    then show ?thesis
      by (simp add: resolve_bet_def Let_def)
  qed
qed

lemma valid_bet_17: "valid_bet ''number'' ''17''"
  unfolding valid_bet_def using py_str_small(1) by (auto intro: image_eqI[where x = 17])

text \<open>
  Claim C2. A number bet on \<open>n\<close>, written as \<^verbatim>\<open>str(n)\<close>, pays the amount times 35 when the
  outcome value is \<open>n\<close> and loses the amount otherwise, for every integer \<open>n\<close> (so for
  every pocket from 0 to 36), every amount and every outcome, in any world and without
  touching it; for a finite amount \<open>a\<close> these are the numbers \<open>35 a\<close> and \<open>- a\<close>. In
  particular a bet of 10 on 17 against the outcome (17, black) returns 350, and a bet of 10
  on 5 against the same outcome returns -10.
\<close>

theorem resolve_bet_number:
  "resolve_bet ''number'' (py_str n) x ov oc w
     = (Inr (if ov = n then float_mul x (Fin 35) else float_neg x), w)
   \<and> resolve_bet ''number'' (py_str n) (Fin a) ov oc w
       = (Inr (Fin (if ov = n then a * 35 else - a)), w)
   \<and> resolve_bet ''number'' ''17'' (Fin 10) 17 ''black'' w = (Inr (Fin 350), w)
   \<and> resolve_bet ''number'' ''5'' (Fin 10) 17 ''black'' w = (Inr (Fin (- 10)), w)"
  using number_bet_result[of 17 "Fin 10" 17 "''black''" w]
    number_bet_result[of 5 "Fin 10" 17 "''black''" w]
  by (simp add: number_bet_result py_str_small)

text \<open>
  Claim C3. A colour bet on \<open>c\<close> returns the amount when the outcome's colour is \<open>c\<close> and
  minus the amount otherwise, for every amount and every outcome, in any world and
  without touching it. A green outcome loses both a bet on red and a bet on black. A bet
  of 20 on red against (19, red) returns 20.
\<close>

theorem resolve_bet_color:
  "resolve_bet ''color'' c x ov oc w = (Inr (if oc = c then x else float_neg x), w)
   \<and> resolve_bet ''color'' c (Fin a) ov oc w = (Inr (Fin (if oc = c then a else - a)), w)
   \<and> resolve_bet ''color'' ''red'' (Fin a) ov ''green'' w = (Inr (Fin (- a)), w)
   \<and> resolve_bet ''color'' ''black'' (Fin a) ov ''green'' w = (Inr (Fin (- a)), w)
   \<and> resolve_bet ''color'' ''red'' (Fin 20) 19 ''red'' w = (Inr (Fin 20), w)"
  by (simp add: resolve_bet_def)

text \<open>
  Claim C4. A parity bet loses the amount when the outcome value is 0, whichever parity
  was chosen; on a non-zero outcome it returns the amount when the outcome's parity is the
  chosen one and minus the amount when it is the other one. A bet of 15 on even against
  (0, green) returns -15.
\<close>

theorem resolve_bet_parity:
  "resolve_bet ''parity'' ''even'' x ov oc w
     = (Inr (if ov \<noteq> 0 \<and> even ov then x else float_neg x), w)
   \<and> resolve_bet ''parity'' ''odd'' x ov oc w
       = (Inr (if ov \<noteq> 0 \<and> odd ov then x else float_neg x), w)
   \<and> resolve_bet ''parity'' ''even'' (Fin a) ov oc w
       = (Inr (Fin (if ov \<noteq> 0 \<and> even ov then a else - a)), w)
   \<and> resolve_bet ''parity'' ''odd'' (Fin a) ov oc w
       = (Inr (Fin (if ov \<noteq> 0 \<and> odd ov then a else - a)), w)
   \<and> resolve_bet ''parity'' ''even'' (Fin 15) 0 ''green'' w = (Inr (Fin (- 15)), w)"
  by (simp add: resolve_bet_def Let_def even_iff_mod_2_eq_zero)

text \<open>
  Claim C6. For a bet that \<^verbatim>\<open>main\<close> can place and a positive amount \<open>a\<close>, \<^verbatim>\<open>resolve_bet\<close>
  returns normally, its result is one of \<open>a\<close>, \<open>35 a\<close> and \<open>- a\<close>, and the result is
  \<open>35 a\<close> only for a number bet.
\<close>

theorem resolve_bet_profit_set:
  assumes "valid_bet k v" and "0 < a"
  shows "\<exists>r. resolve_bet k v (Fin a) ov oc w = (Inr (Fin r), w) \<and> r \<in> {a, 35 * a, - a}
           \<and> (r = 35 * a \<longrightarrow> k = ''number'')"
  using resolve_bet_valid[OF assms(1), of "Fin a" ov oc w] assms(2)
  by auto

theorem resolve_bet_profit_set_witness:
  "valid_bet ''number'' ''17'' \<and> (0::real) < 10
   \<and> resolve_bet ''number'' ''17'' (Fin 10) 17 ''black'' (sample_world [])
       = (Inr (Fin 350), sample_world [])"
proof -
  have v: "valid_bet ''number'' ''17''"
    by (rule valid_bet_17)
  have a: "(0::real) < 10"
    by simp
  from resolve_bet_profit_set[OF v a, of 17 "''black''" "sample_world []"]
  obtain r where "resolve_bet ''number'' ''17'' (Fin 10) 17 ''black'' (sample_world [])
      = (Inr (Fin r), sample_world [])"
    and "r \<in> {10, 35 * 10, - 10}"
    by blast
  moreover have "resolve_bet ''number'' ''17'' (Fin 10) 17 ''black'' (sample_world [])
      = (Inr (Fin 350), sample_world [])"
    using number_bet_result[of 17 "Fin 10" 17 "''black''" "sample_world []"]
    by (simp add: py_str_small)
  ultimately show ?thesis
    using v by simp
qed

text \<open>
  Claim C7. \<^verbatim>\<open>resolve_bet\<close> raises the unknown-bet-type error exactly when the bet kind is
  none of number, color and parity; and for a bet that \<^verbatim>\<open>main\<close> can place it returns a
  profit without raising.
\<close>

theorem resolve_bet_unknown_kind:
  "((\<exists>s. fst (resolve_bet t v a ov oc w) = Inl (ValueError_unknown_bet_type s))
      \<longleftrightarrow> t \<notin> {''number'', ''color'', ''parity''})
   \<and> (valid_bet t v \<longrightarrow> (\<exists>p. resolve_bet t v a ov oc w = (Inr p, w)))"
proof
  show "(\<exists>s. fst (resolve_bet t v a ov oc w) = Inl (ValueError_unknown_bet_type s))
      \<longleftrightarrow> t \<notin> {''number'', ''color'', ''parity''}"
    by (auto simp: resolve_bet_def Let_def dest: py_int_Inl split: sum.splits)
  show "valid_bet t v \<longrightarrow> (\<exists>p. resolve_bet t v a ov oc w = (Inr p, w))"
    using resolve_bet_valid[of t v a ov oc w] by auto
qed

theorem resolve_bet_unknown_kind_witness:
  "resolve_bet ''split'' ''1'' (Fin 10) 17 ''black'' (sample_world [])
     = (Inl (ValueError_unknown_bet_type ''split''), sample_world [])
   \<and> valid_bet ''color'' ''red''
   \<and> resolve_bet ''color'' ''red'' (Fin 10) 17 ''black'' (sample_world [])
       = (Inr (Fin (- 10)), sample_world [])"
proof -
  have v: "valid_bet ''color'' ''red''"
    by (simp add: valid_bet_def)
  from resolve_bet_unknown_kind[of "''split''" "''1''" "Fin 10" 17 "''black''" "sample_world []"]
  have "\<exists>s. fst (resolve_bet ''split'' ''1'' (Fin 10) 17 ''black'' (sample_world []))
      = Inl (ValueError_unknown_bet_type s)"
    by simp
  moreover
  from resolve_bet_unknown_kind[of "''color''" "''red''" "Fin 10" 17 "''black''" "sample_world []"]
    v
  have "\<exists>p. resolve_bet ''color'' ''red'' (Fin 10) 17 ''black'' (sample_world [])
      = (Inr p, sample_world [])"
    by simp
  ultimately show ?thesis
    using v by (auto simp: resolve_bet_def)
qed

text \<open>
  Claim C9. A call of \<^verbatim>\<open>resolve_bet\<close> leaves the world as it found it: nothing is read,
  nothing is printed, no number is drawn. Its result is fixed by its five arguments: two
  calls with the same arguments return the same result, whatever the worlds they are made
  in.
\<close>

theorem resolve_bet_deterministic:
  "snd (resolve_bet t v a ov oc w) = w
   \<and> fst (resolve_bet t v a ov oc w) = fst (resolve_bet t v a ov oc w')"
proof (cases "t = ''number''")
  case True
  then show ?thesis
    by (cases "py_int v") (simp_all add: resolve_bet_def)
next
  case False
  then show ?thesis
    by (simp add: resolve_bet_def Let_def)
qed

text \<open>
  The other functions of the script do not have this property: \<^verbatim>\<open>spin_wheel\<close> draws a
  number, and its result depends on the generator.
\<close>

lemma spin_wheel_is_not_pure:
  "snd (spin_wheel (sample_world [])) \<noteq> sample_world []
   \<and> fst (spin_wheel (sample_world [])) = Inr (2, ''black'')
   \<and> fst (spin_wheel ((sample_world [])\<lparr>entropy := (\<lambda>_. 3)\<rparr>)) = Inr (3, ''red'')"
  by (simp add: spin_wheel_def randint_def sample_world_def ROULETTE_COLORS_def
      ROULETTE_COLORS_items_def)

section \<open>The colour table\<close>

lemma ROULETTE_COLORS_Some:
  "ROULETTE_COLORS v = Some c \<longleftrightarrow> (v, c) \<in> set ROULETTE_COLORS_items"
  unfolding ROULETTE_COLORS_def
  by (rule map_of_eq_Some_iff) (simp add: ROULETTE_COLORS_items_def)

lemma green_pockets: "{v. ROULETTE_COLORS v = Some ''green''} = {0}"
  by (auto simp: ROULETTE_COLORS_Some ROULETTE_COLORS_items_def)

lemma red_pockets:
  "{v. ROULETTE_COLORS v = Some ''red''}
     = {1, 3, 5, 7, 9, 12, 14, 16, 18, 19, 21, 23, 25, 27, 30, 32, 34, 36}"
  by (auto simp: ROULETTE_COLORS_Some ROULETTE_COLORS_items_def)

lemma black_pockets:
  "{v. ROULETTE_COLORS v = Some ''black''}
     = {2, 4, 6, 8, 10, 11, 13, 15, 17, 20, 22, 24, 26, 28, 29, 31, 33, 35}"
  by (auto simp: ROULETTE_COLORS_Some ROULETTE_COLORS_items_def)

lemma remaining_pockets:
  "{0..36} - {0} - {1, 3, 5, 7, 9, 12, 14, 16, 18, 19, 21, 23, 25, 27, 30, 32, 34, 36}
     = {2, 4, 6, 8, 10, 11, 13, 15, 17, 20, 22, 24, 26, 28, 29, 31, 33, 35::int}"
proof -
  have "{0..36::int} = set [0..36]"
    by simp
  also have "[0..36::int] = map fst ROULETTE_COLORS_items"
    by (simp add: ROULETTE_COLORS_items_def upto_rec1)
  finally show ?thesis
    by (auto simp: ROULETTE_COLORS_items_def)
qed

lemma ran_ROULETTE_COLORS: "ran ROULETTE_COLORS = {''green'', ''red'', ''black''}"
proof -
  have "ran ROULETTE_COLORS = snd ` set ROULETTE_COLORS_items"
    unfolding ROULETTE_COLORS_def
    by (rule ran_distinct) (simp add: ROULETTE_COLORS_items_def)
  also have "\<dots> = {''green'', ''red'', ''black''}"
    by (simp add: ROULETTE_COLORS_items_def insert_commute)
  finally show ?thesis .
qed

text \<open>
  Claim C5. The table has a colour for exactly the pockets 0 to 36, and the colours are
  green, red and black. Pocket 0 is the only green one; the red pockets are 1, 3, 5, 7, 9,
  12, 14, 16, 18, 19, 21, 23, 25, 27, 30, 32, 34 and 36; the black pockets are the
  eighteen others.
\<close>

theorem ROULETTE_COLORS_layout:
  "dom ROULETTE_COLORS = {0..36}
   \<and> ran ROULETTE_COLORS = {''green'', ''red'', ''black''}
   \<and> {v. ROULETTE_COLORS v = Some ''green''} = {0}
   \<and> {v. ROULETTE_COLORS v = Some ''red''}
       = {1, 3, 5, 7, 9, 12, 14, 16, 18, 19, 21, 23, 25, 27, 30, 32, 34, 36}
   \<and> {v. ROULETTE_COLORS v = Some ''black''}
       = {0..36} - {0} - {1, 3, 5, 7, 9, 12, 14, 16, 18, 19, 21, 23, 25, 27, 30, 32, 34, 36}
   \<and> card {v. ROULETTE_COLORS v = Some ''black''} = 18"
proof -
  have "card {v. ROULETTE_COLORS v = Some ''black''} = 18"
    unfolding black_pockets by simp
  moreover note dom_ROULETTE_COLORS ran_ROULETTE_COLORS green_pockets red_pockets
  moreover have "{v. ROULETTE_COLORS v = Some ''black''}
      = {0..36} - {0} - {1, 3, 5, 7, 9, 12, 14, 16, 18, 19, 21, 23, 25, 27, 30, 32, 34, 36}"
    unfolding black_pockets remaining_pockets ..
  ultimately show ?thesis
    by (intro conjI)
qed

section \<open>Rounding\<close>

lemma round2_close: "\<bar>round2 v - v\<bar> \<le> 1 / 200"
proof -
  define y where "y = v * 100"
  define f where "f = \<lfloor>y\<rfloor>"
  define d where "d = y - of_int f"
  have d: "0 \<le> d" "d < 1"
    unfolding d_def f_def by linarith+
  define k where "k = (if d < 1 / 2 then f else if 1 / 2 < d then f + 1 else if even f then f else f + 1)"
  have r: "round2 v = of_int k / 100"
    by (simp add: round2_def Let_def k_def d_def f_def y_def)
  have "\<bar>of_int k - y\<bar> \<le> 1 / 2"
    using d unfolding k_def d_def by (auto simp: abs_le_iff)
  then have "\<bar>of_int k / 100 - y / 100\<bar> \<le> 1 / 200"
    by (simp add: abs_le_iff field_simps)
  then show ?thesis
    by (simp add: r y_def)
qed

lemma round2_tiny: "0 \<le> v \<Longrightarrow> v < 1 / 200 \<Longrightarrow> round2 v = 0"
proof -
  assume v: "0 \<le> v" "v < 1 / 200"
  then have "0 \<le> v * 100" "v * 100 < 1 / 2"
    by simp_all
  moreover from this have "\<lfloor>v * 100\<rfloor> = 0"
    by (intro floor_unique) simp_all
  ultimately show ?thesis
    by (simp add: round2_def Let_def)
qed

section \<open>The session\<close>

lemma float_cmp_Fin [simp]:
  "float_gt (Fin a) (Fin b) = (b < a)"
  "float_eq (Fin a) (Fin b) = (a = b)"
  "float_le (Fin a) (Fin b) = (a \<le> b)"
  "float_ge (Fin a) (Fin b) = (b \<le> a)"
  by (auto simp: float_gt_def float_eq_def float_le_def float_ge_def)


lemma stake_in_range:
  "0 < x \<Longrightarrow> float_le (Fin x) b \<Longrightarrow> float_gt b (Fin 0) \<and> \<not> float_gt (Fin x) b"
  by (cases b) (auto simp: float_gt_def float_le_def float_eq_def)


lemma rounds_main_loop: "rounds f b w rs b' w' \<Longrightarrow> main_loop f b w = main_loop f b' w'"
proof (induction rule: rounds.induct)
  case (rounds_Nil b w)
  show ?case ..
next
  case (rounds_Cons b w a p w1 rs b' w')
  from rounds_Cons(1,2) have "main_loop f b w = main_loop f (float_add b p) w1"
    by (subst main_loop.simps) simp
  with rounds_Cons.IH show ?case
    by simp
qed



lemma py_print_stdout [simp]: "stdout (py_print x w) = stdout w @ [x]"
  by (simp add: py_print_def)

lemma consume_stdout [simp]: "stdout (consume p w) = stdout w @ [Text p]"
  by (simp add: consume_def)

lemma prompt_float_stdout:
  "prompt_float f p mn mx w = (r, w') \<Longrightarrow>
     \<exists>new. stdout w' = stdout w @ new
       \<and> set new \<subseteq> {Text p, Text ''Please enter a number.'', EnterValueBetween mn mx}"
proof (induction "stdin w" arbitrary: w)
  case Nil
  then show ?case
    by (auto simp: prompt_float_Nil)
next
  case (Cons l ls)
  from Cons(2) have st: "stdin w = l # ls"
    by simp
  let ?allowed = "{Text p, Text ''Please enter a number.'', EnterValueBetween mn mx}"
  have again: "\<exists>new. stdout w' = stdout w @ new \<and> set new \<subseteq> ?allowed"
    if x: "x \<in> {Text ''Please enter a number.'', EnterValueBetween mn mx}"
      and run: "prompt_float f p mn mx (py_print x (consume p w)) = (r, w')" for x
  proof -
    have "ls = stdin (py_print x (consume p w))"
      by (simp add: st)
    from Cons(1)[OF this run] obtain new
      where "stdout w' = stdout w @ Text p # x # new" and "set new \<subseteq> ?allowed"
      by auto
    with x
    have "stdout w' = stdout w @ (Text p # x # new) \<and> set (Text p # x # new) \<subseteq> ?allowed"
      by auto
    then show ?thesis
      by blast
  qed
  show ?case
  proof (cases "f l")
    case None
    with Cons(3) show ?thesis
      by (intro again[of "Text ''Please enter a number.''"])
        (simp_all add: prompt_float_Cons[OF st])
  next
    case (Some v)
    show ?thesis
    proof (cases "float_lt v mn \<or> float_gt v mx")
      case True
      with Some Cons(3) show ?thesis
        by (intro again[of "EnterValueBetween mn mx"])
          (simp_all add: prompt_float_Cons[OF st])
    next
      case False
      with Some Cons(3) have "w' = consume p w"
        by (simp add: prompt_float_Cons[OF st])
      then have "stdout w' = stdout w @ [Text p] \<and> set [Text p] \<subseteq> ?allowed"
        by simp
      then show ?thesis
        by blast
    qed
  qed
qed

lemma main_loop_stop: "\<not> float_gt b (Fin 0) \<Longrightarrow> main_loop f b w = (Inr b, w)"
  by (subst main_loop.simps) simp

lemma main_round_cash_out:
  "prompt_float f ''Enter bet amount (or 0 to cash out): '' (Fin 0) b
     (py_print (CurrentBalance b) w) = (Inr (Fin 0), w1) \<Longrightarrow>
   main_round f b w = (CashOut, w1)"
  by (simp add: main_round_def)

lemma main_loop_cash_out:
  "float_gt b (Fin 0) \<Longrightarrow> main_round f b w = (CashOut, w1) \<Longrightarrow>
     main_loop f b w = (Inr b, w1)"
  by (subst main_loop.simps) simp

lemma main_after_rounds:
  assumes "rounds f (Fin 100) (py_print (Text ''=== Welcome to CLI Roulette ==='') w0) rs b w"
    and "main_loop f b w = (Inr b', w')"
  shows "main f w0 = (Inr (), py_print (Leave b') w')"
  using rounds_main_loop[OF assms(1)] assms(2) by (simp add: main_def)

subsection \<open>The sample sessions, run\<close>

lemmas run_simps =
  main_round_def sample_world_def greeted_def sample_float_def prompt_float.simps
  prompt_choice.simps pick_number.simps py_input_def py_print_def round2_def spin_wheel_def
  randint_def ROULETTE_COLORS_def ROULETTE_COLORS_items_def resolve_bet_def py_lower_def
  lower_char_def capitals_def smalls_def py_strip_def is_space_def Let_def py_str_def
  digits.simps digit_char_def float_gt_def float_eq_def float_le_def float_ge_def

lemma first_round:
  "main_round sample_float (Fin 100) (greeted (''10'' # ''Color'' # '' black'' # typed))
     = (Played (Fin 10) (Fin 10), after_first typed)"
  by (simp add: run_simps after_first_def)

lemma second_round:
  "main_round sample_float (Fin 110) (after_first [''110'', ''parity'', ''odd''])
     = (Played (Fin 110) (Fin (- 110)), after_second)"
  by (simp add: run_simps after_first_def after_second_def)

lemma cash_out_prompt:
  "prompt_float sample_float ''Enter bet amount (or 0 to cash out): '' (Fin 0) (Fin 110)
     (py_print (CurrentBalance (Fin 110)) (after_first [''0''])) = (Inr (Fin 0), after_cash_out)"
  by (simp add: run_simps after_first_def after_cash_out_def)

lemma one_round:
  "rounds sample_float (Fin 100) (greeted (''10'' # ''Color'' # '' black'' # typed))
     [\<lparr>round_entry = Fin 100, round_amount = Fin 10, round_profit = Fin 10\<rparr>]
     (Fin 110) (after_first typed)"
  using rounds_Cons[OF _ first_round rounds_Nil, of typed] by simp

lemma two_rounds:
  "rounds sample_float (Fin 100)
     (greeted [''10'', ''Color'', '' black'', ''110'', ''parity'', ''odd''])
     [\<lparr>round_entry = Fin 100, round_amount = Fin 10, round_profit = Fin 10\<rparr>,
      \<lparr>round_entry = Fin 110, round_amount = Fin 110, round_profit = Fin (- 110)\<rparr>]
     (Fin 0) after_second"
proof -
  have "rounds sample_float (Fin 110) (after_first [''110'', ''parity'', ''odd''])
      [\<lparr>round_entry = Fin 110, round_amount = Fin 110, round_profit = Fin (- 110)\<rparr>]
      (Fin 0) after_second"
    using rounds_Cons[OF _ second_round rounds_Nil] by simp
  with rounds_Cons[OF _ first_round, of "[''110'', ''parity'', ''odd'']"] show ?thesis
    by simp
qed

text \<open>
  The range test of \<^verbatim>\<open>prompt_float\<close> comes before the rounding, so the amount it returns
  can be larger than the maximum it was given.
\<close>

lemma prompt_float_may_exceed_maximum:
  "fst (prompt_float sample_float ''amount: '' (Fin 0) (Fin (6 / 1000))
          (sample_world [''0.006'']))
     = Inr (Fin (1 / 100))"
  by (simp add: run_simps)

text \<open>
  The range test lets NaN through, and \<^verbatim>\<open>main\<close> stakes it: the bet is resolved, the
  balance becomes NaN, the loop test fails and the session ends reporting NaN. An infinity
  is turned down like any other value out of range, and the next line is read.
\<close>

lemma prompt_float_lets_nan_through:
  "fst (prompt_float sample_float ''amount: '' (Fin 0) (Fin 100) (sample_world [''nan'']))
     = Inr NaN"
  by (simp add: run_simps)

lemma prompt_float_turns_infinity_down:
  "fst (prompt_float sample_float ''amount: '' (Fin 0) (Fin 100)
          (sample_world [''inf'', ''10'']))
     = Inr (Fin 10)"
  by (simp add: run_simps)

lemma nan_round:
  "main_round sample_float (Fin 100) (greeted [''nan'', ''color'', ''red''])
     = (Played NaN NaN, after_nan)"
  by (simp add: run_simps after_nan_def)

lemma nan_is_staked:
  "main sample_float (sample_world [''nan'', ''color'', ''red''])
     = (Inr (), py_print (Leave NaN) after_nan)"
proof -
  have "main_loop sample_float (Fin 100) (greeted [''nan'', ''color'', ''red''])
      = main_loop sample_float NaN after_nan"
    by (subst main_loop.simps) (simp add: nan_round)
  also have "\<dots> = (Inr NaN, after_nan)"
    by (rule main_loop_stop) (simp add: float_gt_def)
  finally show ?thesis
    by (simp add: main_def greeted_def)
qed

subsection \<open>The balance\<close>



subsection \<open>Cashing out\<close>

text \<open>
  Claim C8. Suppose the session has reached the loop entry with balance \<open>b\<close>. If \<open>b\<close> is
  positive and the bet-amount prompt returns 0, \<^verbatim>\<open>main\<close> ends normally and reports \<open>b\<close>;
  no number was drawn, and nothing was printed in that round but the balance line and the
  lines of the bet-amount prompt, so the wheel was not spun and no bet was resolved. If
  \<open>b\<close> is not positive, \<^verbatim>\<open>main\<close> ends at once and reports \<open>b\<close>, in the same world: nothing
  was asked.
\<close>

theorem cash_out_keeps_balance:
  assumes "rounds f (Fin 100) (py_print (Text ''=== Welcome to CLI Roulette ==='') w0) rs b w"
  shows "(float_gt b (Fin 0)
            \<and> prompt_float f ''Enter bet amount (or 0 to cash out): '' (Fin 0) b
                (py_print (CurrentBalance b) w) = (Inr (Fin 0), w1)
            \<longrightarrow> main f w0 = (Inr (), py_print (Leave b) w1)
                \<and> draws w1 = draws w
                \<and> (\<exists>new. stdout w1 = stdout w @ CurrentBalance b # new
                      \<and> set new \<subseteq> {Text ''Enter bet amount (or 0 to cash out): '',
                                      Text ''Please enter a number.'',
                                      EnterValueBetween (Fin 0) b}))
       \<and> (\<not> float_gt b (Fin 0) \<longrightarrow> main f w0 = (Inr (), py_print (Leave b) w))"
proof (intro conjI impI)
  assume "\<not> float_gt b (Fin 0)"
  then show "main f w0 = (Inr (), py_print (Leave b) w)"
    by (intro main_after_rounds[OF assms] main_loop_stop)
next
  assume a: "float_gt b (Fin 0)
      \<and> prompt_float f ''Enter bet amount (or 0 to cash out): '' (Fin 0) b
          (py_print (CurrentBalance b) w) = (Inr (Fin 0), w1)"
  then have pf: "prompt_float f ''Enter bet amount (or 0 to cash out): '' (Fin 0) b
      (py_print (CurrentBalance b) w) = (Inr (Fin 0), w1)" and b: "float_gt b (Fin 0)"
    by simp_all
  from main_loop_cash_out[OF b main_round_cash_out[OF pf]]
  show "main f w0 = (Inr (), py_print (Leave b) w1)"
    by (rule main_after_rounds[OF assms])
  from prompt_float_frame[OF pf] show "draws w1 = draws w"
    by simp
  from prompt_float_stdout[OF pf]
  show "\<exists>new. stdout w1 = stdout w @ CurrentBalance b # new
      \<and> set new \<subseteq> {Text ''Enter bet amount (or 0 to cash out): '',
                      Text ''Please enter a number.'', EnterValueBetween (Fin 0) b}"
    by simp
qed

theorem cash_out_keeps_balance_witness:
  "rounds sample_float (Fin 100) (greeted [''10'', ''Color'', '' black'', ''0''])
     [\<lparr>round_entry = Fin 100, round_amount = Fin 10, round_profit = Fin 10\<rparr>]
     (Fin 110) (after_first [''0''])
   \<and> float_gt (Fin 110) (Fin 0)
   \<and> prompt_float sample_float ''Enter bet amount (or 0 to cash out): '' (Fin 0) (Fin 110)
        (py_print (CurrentBalance (Fin 110)) (after_first [''0'']))
       = (Inr (Fin 0), after_cash_out)
   \<and> main sample_float (sample_world [''10'', ''Color'', '' black'', ''0''])
        = (Inr (), py_print (Leave (Fin 110)) after_cash_out)
   \<and> draws after_cash_out = draws (after_first [''0''])
   \<and> rounds sample_float (Fin 100)
        (greeted [''10'', ''Color'', '' black'', ''110'', ''parity'', ''odd''])
        [\<lparr>round_entry = Fin 100, round_amount = Fin 10, round_profit = Fin 10\<rparr>,
         \<lparr>round_entry = Fin 110, round_amount = Fin 110, round_profit = Fin (- 110)\<rparr>]
        (Fin 0) after_second
   \<and> \<not> float_gt (Fin 0) (Fin 0)
   \<and> main sample_float
        (sample_world [''10'', ''Color'', '' black'', ''110'', ''parity'', ''odd''])
        = (Inr (), py_print (Leave (Fin 0)) after_second)"
proof -
  note a = cash_out_keeps_balance[OF one_round[of "[''0'']", unfolded greeted_def],
      of after_cash_out]
  note b = cash_out_keeps_balance[OF two_rounds[unfolded greeted_def]]
  from a cash_out_prompt
  have "main sample_float (sample_world [''10'', ''Color'', '' black'', ''0''])
        = (Inr (), py_print (Leave (Fin 110)) after_cash_out)
      \<and> draws after_cash_out = draws (after_first [''0''])"
    by simp
  moreover from b
  have "main sample_float
          (sample_world [''10'', ''Color'', '' black'', ''110'', ''parity'', ''odd''])
        = (Inr (), py_print (Leave (Fin 0)) after_second)"
    by simp
  ultimately show ?thesis
    using one_round[of "[''0'']"] two_rounds cash_out_prompt by simp
qed

subsection \<open>The bet-amount prompt\<close>

text \<open>
  Claim C10. Whatever \<^verbatim>\<open>prompt_float\<close> returns is the rounding to two decimals of a typed
  value that passed the range test unrounded (it was neither below the minimum nor above
  the maximum), and when that value is finite the result is finite and differs from it by
  at most 0.005; a first line whose value passes the range test is accepted and returned
  rounded. At the bet-amount prompt a value strictly between 0 and 0.005 (and at most the
  balance) is therefore returned as 0, and the round is a cash-out: the loop ends with the
  balance unchanged.
\<close>

theorem prompt_float_checks_then_rounds:
  "(prompt_float f p mn mx w = (Inr r, w') \<longrightarrow>
      (\<exists>l v. l \<in> set (stdin w) \<and> f l = Some v \<and> \<not> float_lt v mn \<and> \<not> float_gt v mx
             \<and> r = float_round2 v
             \<and> (\<forall>x. v = Fin x \<longrightarrow> (\<exists>y. r = Fin y \<and> \<bar>y - x\<bar> \<le> 1 / 200))))
   \<and> (stdin w = l # ls \<and> f l = Some v \<and> \<not> float_lt v mn \<and> \<not> float_gt v mx \<longrightarrow>
        prompt_float f p mn mx w = (Inr (float_round2 v), consume p w))
   \<and> (stdin w = l # ls \<and> f l = Some (Fin x) \<and> 0 < x \<and> x < 1 / 200 \<and> float_le (Fin x) b \<longrightarrow>
        float_round2 (Fin x) = Fin 0
        \<and> main_round f b w =
            (CashOut, consume ''Enter bet amount (or 0 to cash out): ''
                        (py_print (CurrentBalance b) w))
        \<and> main_loop f b w =
            (Inr b, consume ''Enter bet amount (or 0 to cash out): ''
                      (py_print (CurrentBalance b) w)))"
proof (intro conjI impI)
  assume "prompt_float f p mn mx w = (Inr r, w')"
  from prompt_float_Inr[OF this] obtain l v
    where v: "l \<in> set (stdin w)" "f l = Some v" "\<not> float_lt v mn" "\<not> float_gt v mx"
      "r = float_round2 v"
    by blast
  have "\<forall>x. v = Fin x \<longrightarrow> (\<exists>y. r = Fin y \<and> \<bar>y - x\<bar> \<le> 1 / 200)"
    using v(5) round2_close by simp
  with v
  show "\<exists>l v. l \<in> set (stdin w) \<and> f l = Some v \<and> \<not> float_lt v mn \<and> \<not> float_gt v mx
      \<and> r = float_round2 v
      \<and> (\<forall>x. v = Fin x \<longrightarrow> (\<exists>y. r = Fin y \<and> \<bar>y - x\<bar> \<le> 1 / 200))"
    by blast
next
  assume "stdin w = l # ls \<and> f l = Some v \<and> \<not> float_lt v mn \<and> \<not> float_gt v mx"
  then show "prompt_float f p mn mx w = (Inr (float_round2 v), consume p w)"
    by (simp add: prompt_float_Cons[of w l ls])
next
  assume a: "stdin w = l # ls \<and> f l = Some (Fin x) \<and> 0 < x \<and> x < 1 / 200
      \<and> float_le (Fin x) b"
  then show z: "float_round2 (Fin x) = Fin 0"
    by (simp add: round2_tiny)
  from a stake_in_range[of x b] have b: "float_gt b (Fin 0)" and top: "\<not> float_gt (Fin x) b"
    by simp_all
  let ?w0 = "py_print (CurrentBalance b) w"
  from a have "stdin ?w0 = l # ls"
    by simp
  from prompt_float_Cons[OF this, of f "''Enter bet amount (or 0 to cash out): ''" "Fin 0" b]
    a z top
  have "prompt_float f ''Enter bet amount (or 0 to cash out): '' (Fin 0) b ?w0
      = (Inr (Fin 0), consume ''Enter bet amount (or 0 to cash out): '' ?w0)"
    by simp
  then show c: "main_round f b w
      = (CashOut, consume ''Enter bet amount (or 0 to cash out): '' ?w0)"
    by (rule main_round_cash_out)
  from b show "main_loop f b w
      = (Inr b, consume ''Enter bet amount (or 0 to cash out): '' ?w0)"
    using c by (rule main_loop_cash_out)
qed

theorem prompt_float_checks_then_rounds_witness:
  "sample_float ''0.004'' = Some (Fin (4 / 1000))
   \<and> (0::real) < 4 / 1000 \<and> (4 / 1000 :: real) < 1 / 200
   \<and> float_le (Fin (4 / 1000)) (Fin 100)
   \<and> \<not> float_lt (Fin (4 / 1000)) (Fin 0) \<and> \<not> float_gt (Fin (4 / 1000)) (Fin 100)
   \<and> prompt_float sample_float ''Enter bet amount (or 0 to cash out): '' (Fin 0) (Fin 100)
        (py_print (CurrentBalance (Fin 100)) (greeted [''0.004'']))
       = (Inr (Fin 0), consume ''Enter bet amount (or 0 to cash out): ''
                         (py_print (CurrentBalance (Fin 100)) (greeted [''0.004''])))
   \<and> \<bar>0 - 4 / 1000 :: real\<bar> \<le> 1 / 200
   \<and> main_round sample_float (Fin 100) (greeted [''0.004''])
       = (CashOut, consume ''Enter bet amount (or 0 to cash out): ''
                    (py_print (CurrentBalance (Fin 100)) (greeted [''0.004''])))
   \<and> main_loop sample_float (Fin 100) (greeted [''0.004''])
       = (Inr (Fin 100), consume ''Enter bet amount (or 0 to cash out): ''
                          (py_print (CurrentBalance (Fin 100)) (greeted [''0.004''])))"
proof -
  let ?w = "py_print (CurrentBalance (Fin 100)) (greeted [''0.004''])"
  let ?w1 = "consume ''Enter bet amount (or 0 to cash out): '' ?w"
  have st: "stdin (greeted [''0.004'']) = [''0.004'']"
    by (simp add: greeted_def sample_world_def)
  have fl: "sample_float ''0.004'' = Some (Fin (4 / 1000))"
    by (simp add: sample_float_def)
  note at_prompt = prompt_float_checks_then_rounds
    [where f = sample_float and p = "''Enter bet amount (or 0 to cash out): ''"
      and mn = "Fin 0" and mx = "Fin 100" and w = ?w and l = "''0.004''" and ls = "[]"
      and v = "Fin (4 / 1000)" and r = "Fin 0" and w' = ?w1 and b = "Fin 100"
      and x = "4 / 1000"]
  note in_loop = prompt_float_checks_then_rounds
    [where f = sample_float and w = "greeted [''0.004'']" and l = "''0.004''" and ls = "[]"
      and x = "4 / 1000" and b = "Fin 100"]
  from in_loop st fl
  have cash: "float_round2 (Fin (4 / 1000)) = Fin 0
      \<and> main_round sample_float (Fin 100) (greeted [''0.004'']) = (CashOut, ?w1)
      \<and> main_loop sample_float (Fin 100) (greeted [''0.004'']) = (Inr (Fin 100), ?w1)"
    by simp
  from at_prompt st fl cash
  have "prompt_float sample_float ''Enter bet amount (or 0 to cash out): '' (Fin 0) (Fin 100) ?w
      = (Inr (Fin 0), ?w1)"
    by (simp add: float_gt_def)
  with cash fl show ?thesis
    by (simp add: float_gt_def)
qed

end
